theory Spec2Isabelle
  imports Complex_Main
begin

section \<open>The auction registrar client (src/src/index.js)\<close>

text \<open>
  A shallow embedding of the registrar client. The client talks to three collaborators
  that are not part of the repository: the web3 library (hashing, balance and contract
  calls), the name normaliser of the ENS library, and the JavaScript runtime (the clock
  and the random number generator). Each of them is a parameter of the model: a record
  of functions, so that every theorem holds for any behaviour of the collaborator and a
  concrete behaviour can be plugged in to evaluate a call.

  Strings are lists of characters, one element per code unit, so that \<open>length\<close> is the
  \<open>length\<close> property of the source and \<open>take 2\<close> is \<open>substring(0, 2)\<close>. A value that
  may be \<open>null\<close> or \<open>undefined\<close> in the source is an \<open>option\<close>. Numbers that come
  from the ledger (\<open>toNumber()\<close>) and the clock in milliseconds are integers; a draw of
  \<open>Math.random()\<close> is a real number. The amounts that the caller passes in (the value
  of a bid, the value of a transaction) are values of any primitive type, since the
  source compares them as they come.
\<close>

subsection \<open>Values passed in by the caller\<close>

text \<open>
  A number of the source: finite, one of the two infinities, or \<open>NaN\<close>. A primitive
  value other than \<open>undefined\<close>: \<open>null\<close>, a boolean, a number or a string. A value
  that may be \<open>undefined\<close> (a field left out) is an \<open>option\<close> of these. An object, such
  as a big number, enters a comparison as the primitive value its \<open>valueOf\<close> gives.
\<close>

datatype jsnum = Finite real | PosInf | NegInf | NaN

datatype jsval = Null | Bool bool | Num jsnum | Str string

subsection \<open>Errors, outcomes and ledger calls\<close>

text \<open>
  \<open>TooShort\<close> and \<open>NoDeposit\<close> are the two error objects of the source
  (\<open>Registrar.TooShort\<close>, \<open>Registrar.NoDeposit\<close>). \<open>NormaliseError\<close> is what the
  normaliser throws and \<open>LedgerError\<close> what a web3 call fails with.
\<close>

datatype error = TooShort | NoDeposit | NormaliseError string | LedgerError string

text \<open>
  What the caller of an operation observes: a returned value, a thrown error, or one
  invocation of the completion callback with its error slot and its result slot.
\<close>

datatype 'a outcome = Returned 'a | Thrown error | Callback "error option" "'a option"

text \<open>The transaction object handed to web3 (\<open>params\<close>); every field may be left out.\<close>

record txparams =
  tx_from :: "string option"
  tx_value :: "jsval option"
  tx_gas :: "int option"

text \<open>The calls that reach the ledger, in the order they are made.\<close>

datatype call =
    Entries string
  | GetBalance string
  | CreationDate string
  | Owner string
  | StartAuctions "string option list" txparams
  | ShaBid string string "jsval option" string
  | NewBid string txparams
  | UnsealBid string string "jsval option" string txparams
  | SealedBids string
  | FinalizeAuction string txparams

subsection \<open>The collaborators\<close>

text \<open>
  The registrar contract as web3 exposes it. \<open>entries\<close> answers with the five
  components \<open>e[0]\<close> .. \<open>e[4]\<close>, the numeric ones already converted with
  \<open>toNumber()\<close>. A call that fails answers \<open>Inl\<close>.
\<close>

record contract =
  entries :: "string \<Rightarrow> error + (int \<times> string \<times> int \<times> int \<times> int)"
  startAuctions :: "string option list \<Rightarrow> txparams \<Rightarrow> error + string"
  shaBid :: "string \<Rightarrow> string \<Rightarrow> jsval option \<Rightarrow> string \<Rightarrow> error + string"
  newBid :: "string \<Rightarrow> txparams \<Rightarrow> error + string"
  unsealBid_call :: "string \<Rightarrow> string \<Rightarrow> jsval option \<Rightarrow> string \<Rightarrow> txparams \<Rightarrow> error + string"
  sealedBids :: "string \<Rightarrow> error + string"
  finalizeAuction_call :: "string \<Rightarrow> txparams \<Rightarrow> error + string"

text \<open>
  The web3 instance: the raw hash function \<open>web3.sha3\<close>, \<open>web3.eth.getBalance\<close>, and
  the two getters of a deed contract bound to an address.
\<close>

record web3 =
  web3_sha3 :: "string \<Rightarrow> string"
  getBalance :: "string \<Rightarrow> error + int"
  deed_creationDate :: "string \<Rightarrow> error + int"
  deed_owner :: "string \<Rightarrow> error + string"

text \<open>
  The runtime: \<open>normalise\<close> of the ENS library (it throws on an invalid character), the
  successive draws of \<open>Math.random()\<close> within one call, \<open>toString\<close> on such a draw,
  the conversion of a string to a number that a comparison of a string with a
  non-string applies, and the clock \<open>new Date()\<close> in milliseconds.
\<close>

record runtime =
  normalise :: "string \<Rightarrow> error + string"
  random :: "nat \<Rightarrow> real"
  num_toString :: "real \<Rightarrow> string"
  str_toNumber :: "string \<Rightarrow> jsnum"
  now :: int

text \<open>The fields of a \<open>Registrar\<close> object that the operations read.\<close>

record registrar =
  web3 :: web3
  contract :: contract
  minLength :: int

subsection \<open>Hashing adapter and length check\<close>

text \<open>
  \<open>this.sha3\<close>: the result of \<open>web3.sha3\<close>, with \<open>0x\<close> put in front unless its
  second character is \<open>x\<close>. On a result shorter than two characters \<open>result[1]\<close> is
  \<open>undefined\<close>, which differs from \<open>'x'\<close>.
\<close>

definition sha3 :: "registrar \<Rightarrow> string \<Rightarrow> string" where
  "sha3 R s =
     (let result = web3_sha3 (web3 R) s
      in if (case result of c0 # c1 # rest \<Rightarrow> c1 \<noteq> CHR ''x'' | _ \<Rightarrow> True)
         then ''0x'' @ result else result)"

definition checkLength :: "registrar \<Rightarrow> string \<Rightarrow> error + unit" where
  "checkLength R name =
     (if int (length name) < minLength R then Inl TooShort else Inr ())"

subsection \<open>Entry and Deed\<close>

record deed =
  deed_address :: "string option"
  deed_balance :: "int option"
  deed_creationDate_of :: "int option"
  deed_owner_of :: "string option"

record entry =
  entry_name :: string
  entry_hash :: string
  entry_status :: int
  entry_deed :: deed
  entry_registrationDate :: int
  entry_value :: int
  entry_highestBid :: int
  entry_mode :: string

text \<open>
  A \<open>Date\<close> built from a number of milliseconds holds that number when it lies within
  8.64e15 of the epoch and is an invalid date (\<open>None\<close>) otherwise. The difference of
  two dates is a number, \<open>NaN\<close> (\<open>None\<close>) when one of them is invalid, and a
  comparison with an invalid date or with \<open>NaN\<close> is false.
\<close>

definition js_Date :: "int \<Rightarrow> int option" where
  "js_Date ms = (if \<bar>ms\<bar> \<le> 8640000000000000 then Some ms else None)"

definition date_minus :: "int option \<Rightarrow> int option \<Rightarrow> int option" where
  "date_minus a b =
     (case a of None \<Rightarrow> None | Some x \<Rightarrow> (case b of None \<Rightarrow> None | Some y \<Rightarrow> Some (x - y)))"

definition date_lt :: "int option \<Rightarrow> int option \<Rightarrow> bool" where
  "date_lt a b =
     (case a of None \<Rightarrow> False | Some x \<Rightarrow> (case b of None \<Rightarrow> False | Some y \<Rightarrow> x < y))"

text \<open>
  The mode computed by the \<open>Entry\<close> constructor. \<open>t\<close> is the reading of the clock that
  \<open>new Date()\<close> takes, in milliseconds; \<open>registration\<close> is the date built from the
  registration date, which is given in seconds.
\<close>

definition Entry_mode :: "string \<Rightarrow> int \<Rightarrow> int \<Rightarrow> int \<Rightarrow> string" where
  "Entry_mode name status registrationDate t =
     (if length name < 7 then
        (if status = 0 then ''invalid'' else ''can-invalidate'')
      else if status = 0 then ''open''
      else if status = 1 then
        (let now = Some t;
             registration = js_Date (registrationDate * 1000);
             hours = 60 * 60 * 1000
         in if date_lt (Some (24 * hours)) (date_minus registration now) then ''auction''
            else if date_lt now registration
                    \<and> date_lt (date_minus registration now) (Some (24 * hours)) then ''reveal''
            else if date_lt registration now
                    \<and> date_lt (date_minus now registration) (Some (24 * hours)) then ''finalize''
            else ''finalize-open'')
      else if status = 2 then ''owned''
      else '''')"

definition Entry :: "string \<Rightarrow> string \<Rightarrow> int \<Rightarrow> deed \<Rightarrow> int \<Rightarrow> int \<Rightarrow> int \<Rightarrow> int \<Rightarrow> entry" where
  "Entry name hash status d registrationDate val highestBid t =
     \<lparr> entry_name = name, entry_hash = hash, entry_status = status, entry_deed = d,
       entry_registrationDate = registrationDate, entry_value = val,
       entry_highestBid = highestBid,
       entry_mode = Entry_mode name status registrationDate t \<rparr>"

definition Deed :: "string option \<Rightarrow> int option \<Rightarrow> int option \<Rightarrow> string option \<Rightarrow> deed" where
  "Deed a b c ow =
     \<lparr> deed_address = a, deed_balance = b, deed_creationDate_of = c, deed_owner_of = ow \<rparr>"

definition zero_address :: string where
  "zero_address = ''0x0000000000000000000000000000000000000000''"

text \<open>
  \<open>getDeed\<close>: the balance is read first, then the creation date and the owner, all
  without a callback, so a failing call throws (\<open>Inl\<close>). \<open>d.address\<close> is the address the deed
  contract was bound to.
\<close>

definition getDeed :: "registrar \<Rightarrow> string \<Rightarrow> (error + deed) \<times> call list" where
  "getDeed R a =
     (case getBalance (web3 R) a of
        Inl e \<Rightarrow> (Inl e, [GetBalance a])
      | Inr b \<Rightarrow>
          (case deed_creationDate (web3 R) a of
             Inl e \<Rightarrow> (Inl e, [GetBalance a, CreationDate a])
           | Inr c \<Rightarrow>
               (case deed_owner (web3 R) a of
                  Inl e \<Rightarrow> (Inl e, [GetBalance a, CreationDate a, Owner a])
                | Inr ow \<Rightarrow>
                    (Inr (Deed (Some a) (Some b) (Some c) (Some ow)),
                     [GetBalance a, CreationDate a, Owner a]))))"

text \<open>
  \<open>getEntry\<close>. \<open>cb\<close> says whether a callback was supplied. The normaliser, the hash,
  the \<open>entries\<close> read and \<open>getDeed\<close> all run before the callback is looked at and
  outside any \<open>try\<close>.
\<close>

definition getEntry :: "runtime \<Rightarrow> registrar \<Rightarrow> string \<Rightarrow> bool \<Rightarrow> entry outcome \<times> call list" where
  "getEntry E R input cb =
     (case (if take 2 input \<noteq> ''0x''
            then (case normalise E input of
                    Inl err \<Rightarrow> Inl err
                  | Inr name \<Rightarrow> Inr (name, sha3 R name))
            else Inr (input, input)) of
        Inl err \<Rightarrow> (Thrown err, [])
      | Inr (name, hash) \<Rightarrow>
          (case entries (contract R) hash of
             Inl err \<Rightarrow> (Thrown err, [Entries hash])
           | Inr (e0, e1, e2, e3, e4) \<Rightarrow>
               (case (if e1 \<noteq> zero_address then getDeed R e1
                      else (Inr (Deed (Some e1) None None None), [])) of
                  (Inr d, cs) \<Rightarrow>
                    (let en = Entry name hash e0 d e2 e3 e4 (now E)
                     in (if cb then Callback None (Some en) else Returned en,
                         Entries hash # cs))
                | (Inl err, cs) \<Rightarrow> (Thrown err, Entries hash # cs))))"

subsection \<open>Completion of a ledger call\<close>

text \<open>
  A web3 call made without a callback returns its result or throws; a call that was
  handed the caller's callback completes by invoking it with \<open>(err, result)\<close>.
\<close>

definition direct :: "error + 'a \<Rightarrow> 'a outcome" where
  "direct r = (case r of Inl err \<Rightarrow> Thrown err | Inr x \<Rightarrow> Returned x)"

definition via_callback :: "error + 'a \<Rightarrow> 'a outcome" where
  "via_callback r = (case r of Inl err \<Rightarrow> Callback (Some err) None | Inr x \<Rightarrow> Callback None (Some x))"

subsection \<open>openAuction\<close>

text \<open>
  An array of the source is a list of optional elements, \<open>None\<close> for a hole. An
  assignment \<open>a[i] = v\<close> with \<open>i\<close> beyond the end extends the array, leaving holes; with
  a negative \<open>i\<close> it sets a property and leaves the elements alone.
\<close>

definition js_array_set :: "'a option list \<Rightarrow> int \<Rightarrow> 'a \<Rightarrow> 'a option list" where
  "js_array_set xs i v =
     (if i < 0 then xs
      else if nat i < length xs then xs[nat i := Some v]
      else xs @ replicate (nat i - length xs) None @ [Some v])"

text \<open>The loop that fills the ten slots: slot \<open>i\<close> gets the hash of the \<open>i\<close>-th draw.\<close>

definition randomHashes :: "runtime \<Rightarrow> registrar \<Rightarrow> string option list" where
  "randomHashes E R = map (\<lambda>i. Some (sha3 R (num_toString E (random E i)))) [0..<10]"

text \<open>
  The eleventh draw selects the slot \<open>j = Math.floor(Math.random() * 10)\<close>. With a
  callback, the body runs inside \<open>try\<close> and whatever it throws goes to the callback;
  without one, it propagates.
\<close>

definition openAuction :: "runtime \<Rightarrow> registrar \<Rightarrow> string \<Rightarrow> txparams \<Rightarrow> bool \<Rightarrow> string outcome \<times> call list" where
  "openAuction E R name params cb =
     (let hs = randomHashes E R;
          j = \<lfloor>random E 10 * 10\<rfloor>
      in if cb then
           (case normalise E name of
              Inl err \<Rightarrow> (Callback (Some err) None, [])
            | Inr normalisedName \<Rightarrow>
                (case checkLength R name of
                   Inl err \<Rightarrow> (Callback (Some err) None, [])
                 | Inr u \<Rightarrow>
                     (let hash = sha3 R normalisedName;
                          batch = js_array_set hs j hash
                      in (via_callback (startAuctions (contract R) batch params),
                          [StartAuctions batch params]))))
         else
           (case normalise E name of
              Inl err \<Rightarrow> (Thrown err, [])
            | Inr normalisedName \<Rightarrow>
                (case checkLength R name of
                   Inl err \<Rightarrow> (Thrown err, [])
                 | Inr u \<Rightarrow>
                     (let hash = sha3 R normalisedName;
                          batch = js_array_set hs j hash
                      in (direct (startAuctions (contract R) batch params),
                          [StartAuctions batch params])))))"

subsection \<open>Bids\<close>

record bid =
  bid_name :: string
  bid_hash :: string
  bid_value :: "jsval option"
  bid_owner :: string
  bid_secret :: string
  bid_hexSecret :: string
  bid_shaBid :: string

text \<open>\<open>bidFactory\<close> has no callback: the length check comes first, then the normaliser.\<close>

definition bidFactory :: "runtime \<Rightarrow> registrar \<Rightarrow> string \<Rightarrow> string \<Rightarrow> jsval option \<Rightarrow> string \<Rightarrow> bid outcome \<times> call list" where
  "bidFactory E R name ow val secret =
     (case checkLength R name of
        Inl err \<Rightarrow> (Thrown err, [])
      | Inr u \<Rightarrow>
          (case normalise E name of
             Inl err \<Rightarrow> (Thrown err, [])
           | Inr normalisedName \<Rightarrow>
               (let c = ShaBid (sha3 R normalisedName) ow val (sha3 R secret)
                in case shaBid (contract R) (sha3 R normalisedName) ow val (sha3 R secret) of
                     Inl err \<Rightarrow> (Thrown err, [c])
                   | Inr sb \<Rightarrow>
                       (Returned \<lparr> bid_name = normalisedName, bid_hash = sha3 R normalisedName,
                                   bid_value = val, bid_owner = ow, bid_secret = secret,
                                   bid_hexSecret = sha3 R secret, bid_shaBid = sb \<rparr>, [c]))))"

text \<open>
  The operator \<open><\<close> of the source, as \<open>params.value < bid.value\<close> applies it to
  whatever the caller passed. Two strings are compared as strings: character by
  character by code unit, a proper prefix being less. In every other case both sides
  are converted to numbers (\<open>undefined\<close> to \<open>NaN\<close>, \<open>null\<close> to 0, a boolean to 0 or 1, a
  string by the runtime's conversion) and compared as numbers, where a comparison with
  \<open>NaN\<close> is false.
\<close>

fun str_lt :: "string \<Rightarrow> string \<Rightarrow> bool" where
  "str_lt xs [] = False"
| "str_lt [] (y # ys) = True"
| "str_lt (x # xs) (y # ys) =
     (if x = y then str_lt xs ys else (of_char x :: nat) < of_char y)"

fun num_lt :: "jsnum \<Rightarrow> jsnum \<Rightarrow> bool" where
  "num_lt NaN y = False"
| "num_lt x NaN = False"
| "num_lt (Finite x) (Finite y) = (x < y)"
| "num_lt PosInf y = False"
| "num_lt x PosInf = True"
| "num_lt x NegInf = False"
| "num_lt NegInf y = True"

definition ToNumber :: "runtime \<Rightarrow> jsval option \<Rightarrow> jsnum" where
  "ToNumber E v =
     (case v of
        None \<Rightarrow> NaN
      | Some Null \<Rightarrow> Finite 0
      | Some (Bool b) \<Rightarrow> Finite (if b then 1 else 0)
      | Some (Num n) \<Rightarrow> n
      | Some (Str s) \<Rightarrow> str_toNumber E s)"

definition js_lt :: "runtime \<Rightarrow> jsval option \<Rightarrow> jsval option \<Rightarrow> bool" where
  "js_lt E a b =
     (case (a, b) of
        (Some (Str s), Some (Str t)) \<Rightarrow> str_lt s t
      | _ \<Rightarrow> num_lt (ToNumber E a) (ToNumber E b))"

definition submitBid :: "runtime \<Rightarrow> registrar \<Rightarrow> bid \<Rightarrow> txparams \<Rightarrow> bool \<Rightarrow> string outcome \<times> call list" where
  "submitBid E R b params cb =
     (if cb then
        (if js_lt E (tx_value params) (bid_value b) then (Callback (Some NoDeposit) None, [])
         else (via_callback (newBid (contract R) (bid_shaBid b) params),
               [NewBid (bid_shaBid b) params]))
      else
        (if js_lt E (tx_value params) (bid_value b) then (Thrown NoDeposit, [])
         else (direct (newBid (contract R) (bid_shaBid b) params),
               [NewBid (bid_shaBid b) params])))"

definition unsealBid :: "registrar \<Rightarrow> bid \<Rightarrow> txparams \<Rightarrow> bool \<Rightarrow> string outcome \<times> call list" where
  "unsealBid R b params cb =
     (let r = unsealBid_call (contract R) (bid_hash b) (bid_owner b) (bid_value b) (bid_hexSecret b) params;
          c = UnsealBid (bid_hash b) (bid_owner b) (bid_value b) (bid_hexSecret b) params
      in if cb then (via_callback r, [c]) else (direct r, [c]))"

text \<open>
  \<open>isBidRevealed\<close>: with a callback, an error of the read goes to the callback alone;
  otherwise the result is compared with the zero address.
\<close>

definition isBidRevealed :: "registrar \<Rightarrow> bid \<Rightarrow> bool \<Rightarrow> bool outcome \<times> call list" where
  "isBidRevealed R b cb =
     (if cb then
        (case sealedBids (contract R) (bid_shaBid b) of
           Inl err \<Rightarrow> (Callback (Some err) None, [SealedBids (bid_shaBid b)])
         | Inr result \<Rightarrow>
             (Callback None (Some (result = zero_address)), [SealedBids (bid_shaBid b)]))
      else
        (case sealedBids (contract R) (bid_shaBid b) of
           Inl err \<Rightarrow> (Thrown err, [SealedBids (bid_shaBid b)])
         | Inr result \<Rightarrow> (Returned (result = zero_address), [SealedBids (bid_shaBid b)])))"

text \<open>\<open>finalizeAuction\<close>: the normaliser runs before the callback is looked at.\<close>

definition finalizeAuction :: "runtime \<Rightarrow> registrar \<Rightarrow> string \<Rightarrow> txparams \<Rightarrow> bool \<Rightarrow> string outcome \<times> call list" where
  "finalizeAuction E R name params cb =
     (case normalise E name of
        Inl err \<Rightarrow> (Thrown err, [])
      | Inr normalisedName \<Rightarrow>
          (let hash = sha3 R normalisedName;
               r = finalizeAuction_call (contract R) hash params
           in if cb then (via_callback r, [FinalizeAuction hash params])
              else (direct r, [FinalizeAuction hash params])))"

subsection \<open>A mock ledger and runtime\<close>

text \<open>
  Concrete collaborators for evaluating calls. The hash stand-in puts \<open>0x\<close> in front
  of its input; the normaliser stand-in rejects the underscore, as the real one does
  under its STD3 rule, and leaves every other name as it is; the ledger knows no name
  (every entry is open, with the zero address as its deed) and accepts every write.
  The draws of the random number generator are \<open>1/16, 2/16, ..\<close> and their strings are
  the ones \<open>toString\<close> gives. The conversion of a string to a number reads a string of
  decimal digits (the empty string as 0) and gives \<open>NaN\<close> on any other string; no call
  evaluated below compares a string with a non-string.
\<close>

fun digits_value :: "string \<Rightarrow> real \<Rightarrow> jsnum" where
  "digits_value [] acc = Finite acc"
| "digits_value (c # cs) acc =
     (if c \<in> set ''0123456789''
      then digits_value cs (10 * acc + real (of_char c - 48)) else NaN)"

definition mock_web3 :: web3 where
  "mock_web3 =
     \<lparr> web3_sha3 = (\<lambda>s. ''0x'' @ s),
       getBalance = (\<lambda>a. Inr 0),
       deed_creationDate = (\<lambda>a. Inr 0),
       deed_owner = (\<lambda>a. Inr zero_address) \<rparr>"

definition mock_contract :: contract where
  "mock_contract =
     \<lparr> entries = (\<lambda>h. Inr (0, zero_address, 0, 0, 0)),
       startAuctions = (\<lambda>hs p. Inr ''0xa1''),
       shaBid = (\<lambda>h ow v s. Inr (''0x'' @ h @ ow @ s)),
       newBid = (\<lambda>h p. Inr ''0xa2''),
       unsealBid_call = (\<lambda>h ow v s p. Inr ''0xa3''),
       sealedBids = (\<lambda>h. Inr zero_address),
       finalizeAuction_call = (\<lambda>h p. Inr ''0xa4'') \<rparr>"

definition mock_toString :: "real \<Rightarrow> string" where
  "mock_toString r =
     (if r = 1/16 then ''0.0625'' else if r = 2/16 then ''0.125''
      else if r = 3/16 then ''0.1875'' else if r = 4/16 then ''0.25''
      else if r = 5/16 then ''0.3125'' else if r = 6/16 then ''0.375''
      else if r = 7/16 then ''0.4375'' else if r = 8/16 then ''0.5''
      else if r = 9/16 then ''0.5625'' else if r = 10/16 then ''0.625''
      else if r = 11/16 then ''0.6875'' else ''0'')"

definition mock_runtime :: runtime where
  "mock_runtime =
     \<lparr> normalise = (\<lambda>s. if CHR ''_'' \<in> set s then Inl (NormaliseError ''Illegal char _'') else Inr s),
       random = (\<lambda>i. (real i + 1) / 16),
       num_toString = mock_toString,
       str_toNumber = (\<lambda>s. digits_value s 0),
       now = 1000000 \<rparr>"

definition mock_registrar :: registrar where
  "mock_registrar = \<lparr> web3 = mock_web3, contract = mock_contract, minLength = 7 \<rparr>"

definition mock_bid :: bid where
  "mock_bid =
     \<lparr> bid_name = ''foobarbaz'', bid_hash = ''0xfoobarbaz'', bid_value = Some (Num (Finite 2)),
       bid_owner = ''0xme'', bid_secret = ''secret'', bid_hexSecret = ''0xsecret'',
       bid_shaBid = ''0xb1'' \<rparr>"

definition no_params :: txparams where
  "no_params = \<lparr> tx_from = None, tx_value = None, tx_gas = None \<rparr>"

section \<open>Properties\<close>

subsection \<open>The mode of an entry under auction\<close>

text \<open>
  What the constructor computes for a name of seven characters or more with status 1
  and a registration date within the range of a \<open>Date\<close>: the two strict comparisons
  of each window leave the three instants where the difference is exactly 0 or exactly
  24 hours to the last branch.
\<close>

lemma Entry_mode_bidding:
  assumes "7 \<le> length name" and "\<bar>rd * 1000\<bar> \<le> 8640000000000000"
  shows "Entry_mode name 1 rd t =
     (if rd * 1000 - t > 86400000 then ''auction''
      else if 0 < rd * 1000 - t \<and> rd * 1000 - t < 86400000 then ''reveal''
      else if 0 < t - rd * 1000 \<and> t - rd * 1000 < 86400000 then ''finalize''
      else ''finalize-open'')"
  using assms by (simp add: Entry_mode_def js_Date_def date_lt_def date_minus_def Let_def)

text \<open>A registration date beyond the range of a \<open>Date\<close> makes every comparison false.\<close>

lemma Entry_mode_invalid_date:
  assumes "7 \<le> length name" and "8640000000000000 < \<bar>rd * 1000\<bar>"
  shows "Entry_mode name 1 rd t = ''finalize-open''"
  using assms by (simp add: Entry_mode_def js_Date_def date_lt_def date_minus_def Let_def)

text \<open>
  Claim C1. For an entry under auction the four windows are meant to be: more than 24
  hours before the deadline, auction; up to and including 24 hours before it, reveal;
  from the deadline itself up to and including 24 hours after it, finalize; later,
  finalize-open. The code differs at the boundaries. For the name \<open>foobarbaz\<close> with
  status 1 and registration date 1000 (seconds): at the deadline itself (clock at
  1000000 milliseconds) the mode is \<open>finalize-open\<close>, not \<open>finalize\<close>; exactly 24 hours
  before the deadline it is \<open>finalize-open\<close>, not \<open>reveal\<close>; exactly 24 hours after
  the deadline it is \<open>finalize-open\<close>, not \<open>finalize\<close>.
\<close>

theorem Entry_mode_boundary_instants:
  "map_outcome entry_mode
     (fst (getEntry (mock_runtime\<lparr>now := 1000000\<rparr>)
             (mock_registrar\<lparr>contract :=
                mock_contract\<lparr>entries := \<lambda>h. Inr (1, zero_address, 1000, 0, 0)\<rparr>\<rparr>)
             ''foobarbaz'' False))
     = Returned ''finalize-open''
   \<and> Entry_mode ''foobarbaz'' 1 1000 (1000000 - 24 * 3600000) = ''finalize-open''
   \<and> Entry_mode ''foobarbaz'' 1 1000 (1000000 + 24 * 3600000) = ''finalize-open''"
  by (simp add: getEntry_def mock_runtime_def mock_registrar_def mock_contract_def
      mock_web3_def sha3_def Entry_def Entry_mode_def js_Date_def date_lt_def
      date_minus_def Let_def)

subsection \<open>The short-name rule\<close>

text \<open>The constructor never sees the registrar: the threshold is the literal 7.\<close>

lemma Entry_mode_short:
  "length name < 7 \<Longrightarrow>
     Entry_mode name status rd t = (if status = 0 then ''invalid'' else ''can-invalidate'')"
  by (simp add: Entry_mode_def)

text \<open>
  Claim C5. The short-name rule is meant to compare the length of the name with the
  minimum length the registrar was constructed with. On a registrar constructed with
  minimum length 0 the name \<open>foo\<close> passes the length check, yet the entry that
  \<open>getEntry\<close> builds for it (status 0) has the mode \<open>invalid\<close>: the rule compared
  its length with 7.
\<close>

theorem getEntry_mode_ignores_minLength:
  "checkLength (mock_registrar\<lparr>minLength := 0\<rparr>) ''foo'' = Inr ()
   \<and> map_outcome entry_mode
       (fst (getEntry mock_runtime (mock_registrar\<lparr>minLength := 0\<rparr>) ''foo'' False))
     = Returned ''invalid''"
  by (simp add: checkLength_def getEntry_def mock_runtime_def mock_registrar_def
      mock_contract_def mock_web3_def sha3_def Entry_def Entry_mode_def Let_def)

subsection \<open>Submitting a bid\<close>

text \<open>
  On two finite numbers the deposit check is the comparison of the numbers: a deposit
  below the value of the bid is refused and no call reaches the ledger.
\<close>

lemma submitBid_numeric_deposit:
  assumes "tx_value params = Some (Num (Finite dv))"
    and "bid_value b = Some (Num (Finite bv))" and "dv < bv"
  shows "submitBid E R b params False = (Thrown NoDeposit, [])
       \<and> submitBid E R b params True = (Callback (Some NoDeposit) None, [])"
  using assms by (simp add: submitBid_def js_lt_def ToNumber_def)

text \<open>On two strings it is the comparison of the strings, whatever numbers they spell.\<close>

lemma submitBid_string_deposit:
  assumes "tx_value params = Some (Str dv)" and "bid_value b = Some (Str bv)"
  shows "submitBid E R b params False =
           (if str_lt dv bv then (Thrown NoDeposit, [])
            else (direct (newBid (contract R) (bid_shaBid b) params),
                  [NewBid (bid_shaBid b) params]))"
  using assms by (simp add: submitBid_def js_lt_def)

text \<open>
  Claim C3. A deposit below the value of the bid is meant to make \<open>submitBid\<close> fail
  with \<open>NoDeposit\<close> before any ledger write. The amounts of the documented usage are
  the decimal strings that \<open>web3.toWei\<close> gives. For a bid of 10 ether
  (\<open>10000000000000000000\<close> wei) and a deposit of 9 ether (\<open>9000000000000000000\<close> wei)
  the deposit is the smaller number, yet the check compares the two strings, finds
  the deposit not less (its first character \<open>9\<close> comes after \<open>1\<close>), and the sealed-bid
  write is issued, in both calling modes.
\<close>

theorem submitBid_decimal_strings_pass:
  "num_lt (digits_value ''9000000000000000000'' 0) (digits_value ''10000000000000000000'' 0)
   \<and> submitBid mock_runtime mock_registrar
       (mock_bid\<lparr>bid_value := Some (Str ''10000000000000000000'')\<rparr>)
       (no_params\<lparr>tx_value := Some (Str ''9000000000000000000'')\<rparr>) False
     = (Returned ''0xa2'',
        [NewBid ''0xb1'' (no_params\<lparr>tx_value := Some (Str ''9000000000000000000'')\<rparr>)])
   \<and> submitBid mock_runtime mock_registrar
       (mock_bid\<lparr>bid_value := Some (Str ''10000000000000000000'')\<rparr>)
       (no_params\<lparr>tx_value := Some (Str ''9000000000000000000'')\<rparr>) True
     = (Callback None (Some ''0xa2''),
        [NewBid ''0xb1'' (no_params\<lparr>tx_value := Some (Str ''9000000000000000000'')\<rparr>)])"
  by (simp add: submitBid_def js_lt_def mock_registrar_def mock_contract_def mock_bid_def
      no_params_def direct_def via_callback_def)

text \<open>
  Claim C9. When the transaction parameters carry no value, the deposit check does
  not fail: the only call to the ledger is the sealed-bid write, with the parameters
  as given (no value in them), and the outcome of \<open>submitBid\<close> is the outcome of
  that write.
\<close>

theorem submitBid_without_value:
  assumes "tx_value params = None"
  shows "submitBid E R b params False =
           (direct (newBid (contract R) (bid_shaBid b) params), [NewBid (bid_shaBid b) params])
       \<and> submitBid E R b params True =
           (via_callback (newBid (contract R) (bid_shaBid b) params),
            [NewBid (bid_shaBid b) params])"
  using assms by (simp add: submitBid_def js_lt_def ToNumber_def)

theorem submitBid_without_value_witness:
  "submitBid mock_runtime mock_registrar
     mock_bid no_params False
     = (Returned ''0xa2'', [NewBid ''0xb1'' no_params])
   \<and> submitBid mock_runtime mock_registrar
     mock_bid no_params True
     = (Callback None (Some ''0xa2''), [NewBid ''0xb1'' no_params])"
  using submitBid_without_value [where params = no_params and R = mock_registrar
     and b = mock_bid and E = mock_runtime]
  by (simp add: no_params_def mock_registrar_def mock_contract_def mock_bid_def direct_def
      via_callback_def)

subsection \<open>Reveal status\<close>

text \<open>
  Claim C8. When the ledger answers the sealed-bid read for the commitment of the bid,
  \<open>isBidRevealed\<close> yields true exactly when the answer is the zero address, and false
  otherwise; the read is its only call.
\<close>

theorem isBidRevealed_iff_zero:
  assumes "sealedBids (contract R) (bid_shaBid b) = Inr result"
  shows "isBidRevealed R b False =
           (Returned (result = zero_address), [SealedBids (bid_shaBid b)])
       \<and> isBidRevealed R b True =
           (Callback None (Some (result = zero_address)), [SealedBids (bid_shaBid b)])"
  using assms by (simp add: isBidRevealed_def)

theorem isBidRevealed_iff_zero_witness:
  "isBidRevealed
     (mock_registrar\<lparr>contract := mock_contract\<lparr>sealedBids := \<lambda>h. Inr ''0x00000000000000000000000000000000000000d1''\<rparr>\<rparr>)
     mock_bid False
     = (Returned False, [SealedBids ''0xb1''])
   \<and> isBidRevealed mock_registrar
     mock_bid True
     = (Callback None (Some True), [SealedBids ''0xb1''])"
  using isBidRevealed_iff_zero [of
     "mock_registrar\<lparr>contract := mock_contract\<lparr>sealedBids := \<lambda>h. Inr ''0x00000000000000000000000000000000000000d1''\<rparr>\<rparr>"
     mock_bid "''0x00000000000000000000000000000000000000d1''"]
    isBidRevealed_iff_zero [of mock_registrar
     mock_bid zero_address]
  by (simp add: mock_registrar_def mock_contract_def mock_bid_def zero_address_def)

subsection \<open>Looking up an entry by its hash\<close>

lemma getDeed_sha3_irrelevant:
  "getDeed (R\<lparr>web3 := (web3 R)\<lparr>web3_sha3 := h\<rparr>\<rparr>) a = getDeed R a"
  by (simp add: getDeed_def cong: sum.case_cong)

text \<open>
  Claim C10. When the input begins with \<open>0x\<close>, \<open>getEntry\<close> neither normalises nor
  hashes: its result is the same whatever the normaliser and the hash function are;
  its first ledger call is the \<open>entries\<close> read for the input itself; and the entry
  it yields has the input as its name and as its hash.
\<close>

theorem getEntry_of_hash:
  assumes "take 2 input = ''0x''"
  shows "getEntry (E\<lparr>normalise := nm\<rparr>) (R\<lparr>web3 := (web3 R)\<lparr>web3_sha3 := h\<rparr>\<rparr>) input cb
           = getEntry E R input cb
       \<and> (\<exists>cs. snd (getEntry E R input cb) = Entries input # cs)
       \<and> (\<forall>en. fst (getEntry E R input cb) = Returned en
                \<or> fst (getEntry E R input cb) = Callback None (Some en)
              \<longrightarrow> entry_name en = input \<and> entry_hash en = input)"
  using assms
  by (auto simp add: getEntry_def getDeed_sha3_irrelevant Entry_def Let_def
      split: sum.splits prod.splits if_splits)

theorem getEntry_of_hash_witness:
  "take 2 ''0xabc'' = ''0x''
   \<and> getEntry (mock_runtime\<lparr>normalise := \<lambda>s. Inl (NormaliseError ''rejected'')\<rparr>)
        (mock_registrar\<lparr>web3 := (web3 mock_registrar)\<lparr>web3_sha3 := \<lambda>s. ''0xff''\<rparr>\<rparr>) ''0xabc'' False
       = getEntry mock_runtime mock_registrar ''0xabc'' False
   \<and> snd (getEntry mock_runtime mock_registrar ''0xabc'' False) = [Entries ''0xabc'']
   \<and> map_outcome entry_name (fst (getEntry mock_runtime mock_registrar ''0xabc'' False))
       = Returned ''0xabc''
   \<and> map_outcome entry_hash (fst (getEntry mock_runtime mock_registrar ''0xabc'' False))
       = Returned ''0xabc''"
  using getEntry_of_hash [where input = "''0xabc''" and E = mock_runtime
      and nm = "\<lambda>s. Inl (NormaliseError ''rejected'')" and R = mock_registrar
      and h = "\<lambda>s. ''0xff''" and cb = False]
  by (simp add: getEntry_def mock_runtime_def mock_registrar_def mock_contract_def
      mock_web3_def Entry_def Let_def)

subsection \<open>Deeds\<close>

lemma getDeed_fields:
  assumes "fst (getDeed R a) = Inr d"
  shows "deed_address d = Some a \<and> deed_balance d \<noteq> None
       \<and> deed_creationDate_of d \<noteq> None \<and> deed_owner_of d \<noteq> None"
  using assms by (auto simp add: getDeed_def Deed_def split: sum.splits)

lemma getEntry_deed:
  assumes "fst (getEntry E R input cb) = Returned en
           \<or> fst (getEntry E R input cb) = Callback x (Some en)"
  shows "(entry_deed en = Deed (Some zero_address) None None None)
       \<or> (\<exists>a. a \<noteq> zero_address \<and> fst (getDeed R a) = Inr (entry_deed en))"
  using assms
  by (auto simp add: getEntry_def Entry_def Let_def
      split: sum.splits prod.splits if_splits)

text \<open>
  Claim C6, as the code has it. A deed that \<open>getDeed\<close> yields has all four fields set,
  the address being the one asked for. The deed of an entry that \<open>getEntry\<close> yields
  either holds the zero address with balance, creation date and owner all null, or
  holds another address with all four fields set. The address is never null.
\<close>

theorem Deed_fields:
  "(fst (getDeed R a) = Inr d \<longrightarrow>
      deed_address d = Some a \<and> deed_balance d \<noteq> None
      \<and> deed_creationDate_of d \<noteq> None \<and> deed_owner_of d \<noteq> None)
   \<and> (fst (getEntry E R input cb) = Returned en
        \<or> fst (getEntry E R input cb) = Callback x (Some en) \<longrightarrow>
      (deed_address (entry_deed en) = Some zero_address
         \<and> deed_balance (entry_deed en) = None
         \<and> deed_creationDate_of (entry_deed en) = None
         \<and> deed_owner_of (entry_deed en) = None)
      \<or> (deed_address (entry_deed en) \<noteq> None
         \<and> deed_address (entry_deed en) \<noteq> Some zero_address
         \<and> deed_balance (entry_deed en) \<noteq> None
         \<and> deed_creationDate_of (entry_deed en) \<noteq> None
         \<and> deed_owner_of (entry_deed en) \<noteq> None))"
proof (intro conjI impI)
  assume "fst (getDeed R a) = Inr d"
  then show "deed_address d = Some a" "deed_balance d \<noteq> None"
    "deed_creationDate_of d \<noteq> None" "deed_owner_of d \<noteq> None"
    using getDeed_fields by blast+
next
  assume "fst (getEntry E R input cb) = Returned en
        \<or> fst (getEntry E R input cb) = Callback x (Some en)"
  then consider "entry_deed en = Deed (Some zero_address) None None None"
    | a where "a \<noteq> zero_address" "fst (getDeed R a) = Inr (entry_deed en)"
    using getEntry_deed by blast
  then show "(deed_address (entry_deed en) = Some zero_address
         \<and> deed_balance (entry_deed en) = None
         \<and> deed_creationDate_of (entry_deed en) = None
         \<and> deed_owner_of (entry_deed en) = None)
      \<or> (deed_address (entry_deed en) \<noteq> None
         \<and> deed_address (entry_deed en) \<noteq> Some zero_address
         \<and> deed_balance (entry_deed en) \<noteq> None
         \<and> deed_creationDate_of (entry_deed en) \<noteq> None
         \<and> deed_owner_of (entry_deed en) \<noteq> None)"
  proof cases
    case 1
    then show ?thesis by (simp add: Deed_def)
  next
    case 2
    then show ?thesis using getDeed_fields [of R a "entry_deed en"] by simp
  qed
qed

theorem Deed_fields_witness:
  "fst (getDeed mock_registrar ''0xd1'')
     = Inr (Deed (Some ''0xd1'') (Some 0) (Some 0) (Some zero_address))
   \<and> deed_balance (Deed (Some ''0xd1'') (Some 0) (Some 0) (Some zero_address)) \<noteq> None
   \<and> fst (getEntry mock_runtime mock_registrar ''foobarbaz'' False)
       = Returned (Entry ''foobarbaz'' ''0xfoobarbaz'' 0
                    (Deed (Some zero_address) None None None) 0 0 0 1000000)
   \<and> deed_address (Deed (Some zero_address) None None None) = Some zero_address
   \<and> deed_balance (Deed (Some zero_address) None None None) = None
   \<and> deed_creationDate_of (Deed (Some zero_address) None None None) = None
   \<and> deed_owner_of (Deed (Some zero_address) None None None) = None"
  using Deed_fields [of mock_registrar "''0xd1''"
      "Deed (Some ''0xd1'') (Some 0) (Some 0) (Some zero_address)"
      mock_runtime "''foobarbaz''" False
      "Entry ''foobarbaz'' ''0xfoobarbaz'' 0 (Deed (Some zero_address) None None None) 0 0 0 1000000"]
  by (simp add: getDeed_def getEntry_def mock_runtime_def mock_registrar_def mock_contract_def
      mock_web3_def sha3_def Entry_def Deed_def Let_def)

text \<open>
  Claim C6, as stated, at a name the ledger has no deed for: the deed of the entry has
  the zero address in its address field, which is not null, while its balance is null.
\<close>

theorem getEntry_sentinel_deed:
  "map_outcome (deed_address \<circ> entry_deed)
     (fst (getEntry mock_runtime mock_registrar ''foobarbaz'' False))
     = Returned (Some zero_address)
   \<and> map_outcome (deed_balance \<circ> entry_deed)
     (fst (getEntry mock_runtime mock_registrar ''foobarbaz'' False)) = Returned None"
  by (simp add: getEntry_def mock_runtime_def mock_registrar_def mock_contract_def
      mock_web3_def sha3_def Entry_def Deed_def Let_def)

subsection \<open>Errors in callback mode\<close>

text \<open>
  In \<open>getEntry\<close> and \<open>finalizeAuction\<close> an error of the normaliser is thrown whether
  or not a callback was supplied, and so is a failure of the \<open>entries\<close> read.
\<close>

lemma getEntry_normalise_throws:
  "take 2 input \<noteq> ''0x'' \<Longrightarrow> normalise E input = Inl err \<Longrightarrow>
     getEntry E R input cb = (Thrown err, [])"
  by (simp add: getEntry_def)

lemma finalizeAuction_normalise_throws:
  "normalise E name = Inl err \<Longrightarrow> finalizeAuction E R name params cb = (Thrown err, [])"
  by (simp add: finalizeAuction_def)

text \<open>
  Claim C7. With a callback, every failure is meant to reach the error slot of the
  callback. \<open>getEntry\<close> called with a callback on the name \<open>a_b\<close>, which the
  normaliser rejects, throws the normaliser's error and never invokes the callback;
  called on \<open>foobarbaz\<close> while the \<open>entries\<close> read fails, it throws the ledger's
  error; \<open>finalizeAuction\<close> with a callback throws on \<open>a_b\<close> too. \<open>openAuction\<close>
  on the same name hands the error to the callback.
\<close>

theorem getEntry_callback_throws:
  "getEntry mock_runtime mock_registrar ''a_b'' True
     = (Thrown (NormaliseError ''Illegal char _''), [])
   \<and> getEntry mock_runtime
       (mock_registrar\<lparr>contract :=
          mock_contract\<lparr>entries := \<lambda>h. Inl (LedgerError ''connection refused'')\<rparr>\<rparr>)
       ''foobarbaz'' True
     = (Thrown (LedgerError ''connection refused''), [Entries ''0xfoobarbaz''])
   \<and> finalizeAuction mock_runtime mock_registrar ''a_b'' no_params True
     = (Thrown (NormaliseError ''Illegal char _''), [])
   \<and> openAuction mock_runtime mock_registrar ''a_b'' no_params True
     = (Callback (Some (NormaliseError ''Illegal char _'')) None, [])"
  by (simp add: getEntry_def finalizeAuction_def openAuction_def mock_runtime_def
      mock_registrar_def mock_contract_def mock_web3_def sha3_def Let_def)

subsection \<open>Names that are too short\<close>

text \<open>
  Claim C4, as the code has it. For a name shorter than the minimum length,
  \<open>bidFactory\<close> throws \<open>TooShort\<close>; \<open>openAuction\<close> fails with the normaliser's
  error when the normaliser rejects the name and with \<open>TooShort\<close> when it accepts
  it (thrown without a callback, in the error slot with one). In every case no call
  reaches the ledger.
\<close>

theorem short_name_rejected:
  assumes "int (length name) < minLength R"
  shows "bidFactory E R name ow v secret = (Thrown TooShort, [])
       \<and> openAuction E R name params False
           = (Thrown (case normalise E name of Inl err \<Rightarrow> err | Inr n \<Rightarrow> TooShort), [])
       \<and> openAuction E R name params True
           = (Callback (Some (case normalise E name of Inl err \<Rightarrow> err | Inr n \<Rightarrow> TooShort)) None,
              [])"
  using assms
  by (simp add: bidFactory_def openAuction_def checkLength_def Let_def split: sum.splits)

theorem short_name_rejected_witness:
  "bidFactory mock_runtime mock_registrar ''foo'' ''0xme'' (Some (Num (Finite 2))) ''secret''
     = (Thrown TooShort, [])
   \<and> openAuction mock_runtime mock_registrar ''foo'' no_params False = (Thrown TooShort, [])
   \<and> openAuction mock_runtime mock_registrar ''foo'' no_params True
       = (Callback (Some TooShort) None, [])"
  using short_name_rejected [of "''foo''" mock_registrar mock_runtime "''0xme''"
      "Some (Num (Finite 2))" "''secret''" no_params]
  by (simp add: mock_registrar_def mock_runtime_def)

text \<open>
  Claim C4, as stated, at the name \<open>a_b\<close>: it is shorter than the minimum length 7,
  and \<open>openAuction\<close> fails with the normaliser's error, not with \<open>TooShort\<close>.
\<close>

theorem openAuction_short_invalid_name:
  "int (length ''a_b'') < minLength mock_registrar
   \<and> openAuction mock_runtime mock_registrar ''a_b'' no_params False
       = (Thrown (NormaliseError ''Illegal char _''), [])"
  by (simp add: openAuction_def mock_runtime_def mock_registrar_def Let_def)

subsection \<open>The batch of openAuction\<close>

lemma randomHashes_length: "length (randomHashes E R) = 10"
  by (simp add: randomHashes_def)

lemma randomHashes_nth:
  "i < 10 \<Longrightarrow> randomHashes E R ! i = Some (sha3 R (num_toString E (random E i)))"
  by (simp add: randomHashes_def del: upt_Suc)

text \<open>A draw in \<open>[0, 1)\<close> selects one of the ten slots.\<close>

lemma slot_in_range:
  fixes r :: real
  assumes "0 \<le> r" and "r < 1"
  shows "0 \<le> \<lfloor>r * 10\<rfloor> \<and> nat \<lfloor>r * 10\<rfloor> < 10"
proof -
  have "0 \<le> r * 10" using assms by simp
  then have a: "0 \<le> \<lfloor>r * 10\<rfloor>" by simp
  have "r * 10 < 10" using assms by simp
  then have "\<lfloor>r * 10\<rfloor> < 10" by (simp add: floor_less_iff)
  with a show ?thesis by linarith
qed

lemma openAuction_calls:
  assumes "normalise E name = Inr n" and "minLength R \<le> int (length name)"
    and "0 \<le> random E 10" and "random E 10 < 1"
  shows "snd (openAuction E R name params cb) =
           [StartAuctions ((randomHashes E R)[nat \<lfloor>random E 10 * 10\<rfloor> := Some (sha3 R n)]) params]"
  using assms slot_in_range [of "random E 10"]
  by (simp add: openAuction_def checkLength_def js_array_set_def randomHashes_length Let_def)

text \<open>
  Once the draws are given, the batch is determined. For a name that the normaliser
  accepts and that is not shorter than the minimum length, with the eleventh draw in
  \<open>[0, 1)\<close>: the only ledger call is \<open>startAuctions\<close> with ten identifiers, the slot
  selected by the eleventh draw holds the identifier of the normalised name, and every
  other slot holds the hash of its own draw.
\<close>

lemma openAuction_batch:
  assumes "normalise E name = Inr n" and "minLength R \<le> int (length name)"
    and "0 \<le> random E 10" and "random E 10 < 1"
    and "j = nat \<lfloor>random E 10 * 10\<rfloor>"
    and "batch = (randomHashes E R)[j := Some (sha3 R n)]"
  shows "snd (openAuction E R name params cb) = [StartAuctions batch params]
       \<and> length batch = 10 \<and> j < 10 \<and> batch ! j = Some (sha3 R n)
       \<and> (\<forall>i<10. i \<noteq> j \<longrightarrow> batch ! i = Some (sha3 R (num_toString E (random E i))))"
proof (intro conjI allI impI)
  show "snd (openAuction E R name params cb) = [StartAuctions batch params]"
    using assms openAuction_calls by simp
  show "length batch = 10" using assms randomHashes_length by simp
  show j: "j < 10" using assms slot_in_range [of "random E 10"] by simp
  show "batch ! j = Some (sha3 R n)"
    using assms j randomHashes_length by simp
next
  fix i assume "i < 10" "i \<noteq> j"
  then show "batch ! i = Some (sha3 R (num_toString E (random E i)))"
    using assms randomHashes_nth by simp
qed

text \<open>
  A slot is selected by the draws of one interval of length 1/10, the same length for
  each of the ten slots.
\<close>

lemma slot_interval:
  fixes r :: real
  assumes "k < 10"
  shows "(0 \<le> r \<and> r < 1 \<and> nat \<lfloor>r * 10\<rfloor> = k) = (real k / 10 \<le> r \<and> r < (real k + 1) / 10)"
proof -
  have "(\<lfloor>r * 10\<rfloor> = int k) = (real k \<le> r * 10 \<and> r * 10 < real k + 1)"
    by (simp add: floor_eq_iff)
  moreover have "0 \<le> r \<Longrightarrow> (nat \<lfloor>r * 10\<rfloor> = k) = (\<lfloor>r * 10\<rfloor> = int k)"
    by (simp add: nat_eq_iff)
  ultimately show ?thesis using assms by auto
qed

text \<open>For a name that a guard rejects, no call reaches the ledger.\<close>

lemma openAuction_rejected_name:
  assumes "normalise E name = Inl err \<or> int (length name) < minLength R"
  shows "snd (openAuction E R name params cb) = []"
  using assms
  by (auto simp add: openAuction_def checkLength_def Let_def split: sum.splits)

end
